theory Spec2Isabelle
  imports Main
begin

section \<open>The instrumented allocation facade of src/Common/memory.h\<close>

text \<open>
  The header is compiled under three preprocessor switches. Every function below takes the
  build configuration as its first argument and follows the \<^verbatim>\<open>#if\<close> branches of the source.
\<close>

record config =
  USE_JEMALLOC :: bool
  USE_GWP_ASAN :: bool
  GNU_SOURCE :: bool

text \<open>Addresses are natural numbers; the null pointer is 0. Sizes and alignments are
  \<^verbatim>\<open>size_t\<close> values on which the header does no arithmetic, so they are natural numbers.\<close>

type_synonym ptr = nat

abbreviation nullptr :: ptr where
  "nullptr \<equiv> 0"

text \<open>The three profile events the header increments.\<close>

datatype Event = GWPAsanAllocateSuccess | GWPAsanAllocateFailed | GWPAsanFree

text \<open>
  What can leave a function other than a normal return: \<^verbatim>\<open>std::bad_alloc\<close>, an exception of
  the memory tracker, and \<^verbatim>\<open>std::terminate\<close>, which is what an exception escaping a
  \<^verbatim>\<open>noexcept\<close> function becomes.
\<close>

datatype failure = bad_alloc | tracker_exception | terminate

text \<open>Every call the header makes on the sampling guard allocator and on the allocation and
  release functions of the backend, in the order made.\<close>

datatype call =
    ShouldSample
  | GuardedAllocate nat "nat option"
  | GuardedDeallocate ptr
  | PointerIsMine ptr
  | GetSize ptr
  | JeMalloc nat
  | JeAlignedAlloc nat nat
  | JeFree ptr
  | JeSdallocx ptr nat nat
  | Malloc nat
  | AlignedAlloc nat nat
  | Free ptr

text \<open>
  The process-wide state the header reads and writes: the guard allocator's table of live
  guarded allocations (pointer and requested size), the profile counters, the memory tracker's
  amount, and the log of calls.
\<close>

record world =
  guarded :: "(ptr \<times> nat) list"
  profile :: "Event \<Rightarrow> nat"
  tracked :: int
  calls :: "call list"

text \<open>
  What the header does not decide: the sampling decision, where the guard allocator and the
  backend place an allocation (0 when they cannot), the backend's size queries, the
  \<^verbatim>\<open>MALLOCX_ALIGN\<close> macro, whether the tracker's release raises, and the
  \<^verbatim>\<open>AllocationTrace\<close> values the tracker hands back (of an opaque type \<open>'t\<close>). Each may depend on
  the whole state, and so on the whole history of calls.
\<close>

record 't env =
  sample_decision :: "world \<Rightarrow> bool"
  guard_placement :: "world \<Rightarrow> nat \<Rightarrow> nat option \<Rightarrow> ptr"
  je_malloc_result :: "world \<Rightarrow> nat \<Rightarrow> ptr"
  je_aligned_alloc_result :: "world \<Rightarrow> nat \<Rightarrow> nat \<Rightarrow> ptr"
  malloc_result :: "world \<Rightarrow> nat \<Rightarrow> ptr"
  aligned_alloc_result :: "world \<Rightarrow> nat \<Rightarrow> nat \<Rightarrow> ptr"
  je_nallocx :: "nat \<Rightarrow> nat \<Rightarrow> nat"
  je_sallocx :: "world \<Rightarrow> ptr \<Rightarrow> nat \<Rightarrow> nat"
  malloc_usable_size :: "world \<Rightarrow> ptr \<Rightarrow> nat"
  MALLOCX_ALIGN :: "nat \<Rightarrow> nat"
  tracker_free_raises :: "world \<Rightarrow> nat \<Rightarrow> bool"
  alloc_trace :: "world \<Rightarrow> nat \<Rightarrow> 't"
  free_trace :: "world \<Rightarrow> nat \<Rightarrow> 't"

subsection \<open>Collaborators\<close>

definition record_call :: "call \<Rightarrow> world \<Rightarrow> world" where
  "record_call c w = w\<lparr>calls := calls w @ [c]\<rparr>"

text \<open>\<^verbatim>\<open>ProfileEvents::increment(event)\<close>.\<close>

definition increment :: "Event \<Rightarrow> world \<Rightarrow> world" where
  "increment e w = w\<lparr>profile := (profile w)(e := Suc (profile w e))\<rparr>"

text \<open>The backend's allocation and release functions: the result comes from the
  environment, the call is logged.\<close>

definition je_malloc :: "'t env \<Rightarrow> nat \<Rightarrow> world \<Rightarrow> ptr \<times> world" where
  "je_malloc env sz w = (je_malloc_result env w sz, record_call (JeMalloc sz) w)"

definition je_aligned_alloc :: "'t env \<Rightarrow> nat \<Rightarrow> nat \<Rightarrow> world \<Rightarrow> ptr \<times> world" where
  "je_aligned_alloc env a sz w =
     (je_aligned_alloc_result env w a sz, record_call (JeAlignedAlloc a sz) w)"

definition malloc :: "'t env \<Rightarrow> nat \<Rightarrow> world \<Rightarrow> ptr \<times> world" where
  "malloc env sz w = (malloc_result env w sz, record_call (Malloc sz) w)"

definition aligned_alloc :: "'t env \<Rightarrow> nat \<Rightarrow> nat \<Rightarrow> world \<Rightarrow> ptr \<times> world" where
  "aligned_alloc env a sz w =
     (aligned_alloc_result env w a sz, record_call (AlignedAlloc a sz) w)"

definition je_free :: "ptr \<Rightarrow> world \<Rightarrow> world" where
  "je_free p w = record_call (JeFree p) w"

definition je_sdallocx :: "ptr \<Rightarrow> nat \<Rightarrow> nat \<Rightarrow> world \<Rightarrow> world" where
  "je_sdallocx p sz flags w = record_call (JeSdallocx p sz flags) w"

definition free :: "ptr \<Rightarrow> world \<Rightarrow> world" where
  "free p w = record_call (Free p) w"

text \<open>
  Modelled from the spec: the sampling guard allocator of Common/GWPAsan.h, which is not among
  the sources. The spec gives it \<^verbatim>\<open>shouldSample\<close>, \<^verbatim>\<open>allocate\<close> (a pointer or null),
  \<^verbatim>\<open>deallocate\<close>, \<^verbatim>\<open>pointerIsMine\<close> and \<^verbatim>\<open>getSize\<close>, and says that a pointer it returned is its
  own until that pointer is freed. The table \<open>guarded\<close> holds the pointers it has returned and
  not yet taken back, each with its requested size.
\<close>

definition GWPAsan_shouldSample :: "'t env \<Rightarrow> world \<Rightarrow> bool \<times> world" where
  "GWPAsan_shouldSample env w = (sample_decision env w, record_call ShouldSample w)"

definition GuardedAlloc_allocate :: "'t env \<Rightarrow> nat \<Rightarrow> nat option \<Rightarrow> world \<Rightarrow> ptr \<times> world" where
  "GuardedAlloc_allocate env sz align w =
     (let p = guard_placement env w sz align;
          w1 = record_call (GuardedAllocate sz align) w
      in (p, if p = nullptr then w1 else w1\<lparr>guarded := (p, sz) # guarded w1\<rparr>))"

fun drop_entry :: "ptr \<Rightarrow> (ptr \<times> nat) list \<Rightarrow> (ptr \<times> nat) list" where
  "drop_entry p [] = []"
| "drop_entry p ((q, n) # es) = (if p = q then es else (q, n) # drop_entry p es)"

definition GuardedAlloc_deallocate :: "ptr \<Rightarrow> world \<Rightarrow> world" where
  "GuardedAlloc_deallocate p w =
     (let w1 = record_call (GuardedDeallocate p) w
      in w1\<lparr>guarded := drop_entry p (guarded w1)\<rparr>)"

definition owns :: "world \<Rightarrow> ptr \<Rightarrow> bool" where
  "owns w p = (p \<in> set (map fst (guarded w)))"

definition GuardedAlloc_pointerIsMine :: "ptr \<Rightarrow> world \<Rightarrow> bool \<times> world" where
  "GuardedAlloc_pointerIsMine p w = (owns w p, record_call (PointerIsMine p) w)"

definition GuardedAlloc_getSize :: "ptr \<Rightarrow> world \<Rightarrow> nat \<times> world" where
  "GuardedAlloc_getSize p w =
     ((case map_of (guarded w) p of Some n \<Rightarrow> n | None \<Rightarrow> 0), record_call (GetSize p) w)"

text \<open>
  Modelled from the spec: the memory tracker of Common/CurrentMemoryTracker.h, which is not
  among the sources. The spec describes a signed counter of live bytes that is changed only by
  charging (\<^verbatim>\<open>allocNoThrow\<close>, which never raises) and releasing (\<^verbatim>\<open>free\<close>). The header guards
  one of its two calls of \<^verbatim>\<open>free\<close> with a catch-all handler, so a release may raise here, as the
  environment decides; a release that raises leaves the amount as it was.
\<close>

definition CurrentMemoryTracker_allocNoThrow :: "'t env \<Rightarrow> nat \<Rightarrow> world \<Rightarrow> 't \<times> world" where
  "CurrentMemoryTracker_allocNoThrow env sz w =
     (alloc_trace env w sz, w\<lparr>tracked := tracked w + int sz\<rparr>)"

definition CurrentMemoryTracker_free :: "'t env \<Rightarrow> nat \<Rightarrow> world \<Rightarrow> (failure + 't) \<times> world" where
  "CurrentMemoryTracker_free env sz w =
     (if tracker_free_raises env w sz then (Inl tracker_exception, w)
      else (Inr (free_trace env w sz), w\<lparr>tracked := tracked w - int sz\<rparr>))"

subsection \<open>Allocation entries\<close>

definition alignToSizeT :: "nat \<Rightarrow> nat" where
  "alignToSizeT align = align"

text \<open>Lines 101 to 111 of \<^verbatim>\<open>newImpl\<close>: the backend allocation of the platform-default build.\<close>

definition newImpl_backend :: "'t env \<Rightarrow> nat \<Rightarrow> nat option \<Rightarrow> world \<Rightarrow> (failure + ptr) \<times> world" where
  "newImpl_backend env sz align w =
     (let (p, w1) = (case align of
                       Some a \<Rightarrow> aligned_alloc env (alignToSizeT a) sz w
                     | None \<Rightarrow> malloc env sz w)
      in if p \<noteq> nullptr then (Inr p, w1) else (Inl bad_alloc, w1))"

text \<open>\<^verbatim>\<open>newImpl(size, align...)\<close>: the template's optional alignment is an \<open>option\<close>.\<close>

definition newImpl :: "config \<Rightarrow> 't env \<Rightarrow> nat \<Rightarrow> nat option \<Rightarrow> world \<Rightarrow> (failure + ptr) \<times> world" where
  "newImpl cfg env sz align w =
     (if USE_JEMALLOC cfg then
        (let (p, w1) = (case align of
                          Some a \<Rightarrow> je_aligned_alloc env (alignToSizeT a) sz w
                        | None \<Rightarrow> je_malloc env sz w)
         in if p \<noteq> nullptr then (Inr p, w1) else (Inl bad_alloc, w1))
      else
        (let (sampled, w1) = (if USE_GWP_ASAN cfg then GWPAsan_shouldSample env w else (False, w))
         in if sampled then
              (let (g, w2) = GuardedAlloc_allocate env sz (map_option alignToSizeT align) w1
               in if g \<noteq> nullptr then (Inr g, increment GWPAsanAllocateSuccess w2)
                  else newImpl_backend env sz align (increment GWPAsanAllocateFailed w2))
            else newImpl_backend env sz align w1))"

text \<open>\<^verbatim>\<open>newNoExcept(size)\<close> and \<^verbatim>\<open>newNoExcept(size, align)\<close>: the two overloads are the two cases
  of the optional alignment. Both are \<^verbatim>\<open>noexcept\<close> and contain no call that raises.\<close>

definition newNoExcept :: "config \<Rightarrow> 't env \<Rightarrow> nat \<Rightarrow> nat option \<Rightarrow> world \<Rightarrow> (failure + ptr) \<times> world" where
  "newNoExcept cfg env sz align w =
     (if USE_JEMALLOC cfg then
        (let (p, w1) = (case align of
                          Some a \<Rightarrow> je_aligned_alloc env a sz w
                        | None \<Rightarrow> je_malloc env sz w)
         in (Inr p, w1))
      else
        (let (sampled, w1) = (if USE_GWP_ASAN cfg then GWPAsan_shouldSample env w else (False, w))
         in if sampled then
              (let (g, w2) = GuardedAlloc_allocate env sz (map_option alignToSizeT align) w1
               in if g \<noteq> nullptr then (Inr g, increment GWPAsanAllocateSuccess w2)
                  else (let (p, w3) = (case align of
                                         Some a \<Rightarrow> aligned_alloc env a sz
                                                     (increment GWPAsanAllocateFailed w2)
                                       | None \<Rightarrow> malloc env sz
                                                   (increment GWPAsanAllocateFailed w2))
                        in (Inr p, w3)))
            else (let (p, w3) = (case align of
                                   Some a \<Rightarrow> aligned_alloc env a sz w1
                                 | None \<Rightarrow> malloc env sz w1)
                  in (Inr p, w3))))"

subsection \<open>Deallocation entries\<close>

text \<open>\<^verbatim>\<open>deleteImpl(ptr)\<close>.\<close>

definition deleteImpl :: "config \<Rightarrow> ptr \<Rightarrow> world \<Rightarrow> world" where
  "deleteImpl cfg p w =
     (if USE_JEMALLOC cfg then je_free p w
      else
        (let (mine, w1) = (if USE_GWP_ASAN cfg then GuardedAlloc_pointerIsMine p w else (False, w))
         in if mine then GuardedAlloc_deallocate p (increment GWPAsanFree w1)
            else free p w1))"

text \<open>\<^verbatim>\<open>deleteSized(ptr, size, align...)\<close>. The jemalloc build needs the environment for the
  \<^verbatim>\<open>MALLOCX_ALIGN\<close> macro.\<close>

definition deleteSized :: "config \<Rightarrow> 't env \<Rightarrow> ptr \<Rightarrow> nat \<Rightarrow> nat option \<Rightarrow> world \<Rightarrow> world" where
  "deleteSized cfg env p sz align w =
     (if USE_JEMALLOC cfg then
        (if p = nullptr then w
         else
           (let (mine, w1) =
                  (if USE_GWP_ASAN cfg then GuardedAlloc_pointerIsMine p w else (False, w))
            in if mine then GuardedAlloc_deallocate p (increment GWPAsanFree w1)
               else (case align of
                       Some a \<Rightarrow> je_sdallocx p sz (MALLOCX_ALIGN env (alignToSizeT a)) w1
                     | None \<Rightarrow> je_sdallocx p sz 0 w1)))
      else
        (let (mine, w1) = (if USE_GWP_ASAN cfg then GuardedAlloc_pointerIsMine p w else (False, w))
         in if mine then GuardedAlloc_deallocate p (increment GWPAsanFree w1)
            else free p w1))"

subsection \<open>Accounting\<close>

text \<open>\<^verbatim>\<open>getActualAllocationSize(size, align...)\<close>.\<close>

definition getActualAllocationSize :: "config \<Rightarrow> 't env \<Rightarrow> nat \<Rightarrow> nat option \<Rightarrow> nat" where
  "getActualAllocationSize cfg env sz align =
     (if USE_JEMALLOC cfg \<and> sz \<noteq> 0 then
        (case align of
           Some a \<Rightarrow> je_nallocx env sz (MALLOCX_ALIGN env (alignToSizeT a))
         | None \<Rightarrow> je_nallocx env sz 0)
      else sz)"

text \<open>\<^verbatim>\<open>trackMemory(size, trace, align...)\<close>: returns the actual size, the trace written through
  the reference, and the new state.\<close>

definition trackMemory :: "config \<Rightarrow> 't env \<Rightarrow> nat \<Rightarrow> nat option \<Rightarrow> world \<Rightarrow> nat \<times> 't \<times> world" where
  "trackMemory cfg env sz align w =
     (let actual_size = getActualAllocationSize cfg env sz align;
          (trace, w1) = CurrentMemoryTracker_allocNoThrow env actual_size w
      in (actual_size, trace, w1))"

text \<open>
  \<^verbatim>\<open>untrackMemory(ptr, trace, size = 0, align...)\<close>, declared \<^verbatim>\<open>noexcept\<close>. The argument \<open>trace\<close> is
  the value the reference holds on entry; it is what the reference still holds when the handler
  has swallowed an exception. The guard allocator's branch stands before the \<^verbatim>\<open>try\<close> block.
\<close>

definition untrackMemory ::
  "config \<Rightarrow> 't env \<Rightarrow> ptr \<Rightarrow> 't \<Rightarrow> nat \<Rightarrow> nat option \<Rightarrow> world \<Rightarrow> (failure + nat \<times> 't) \<times> world" where
  "untrackMemory cfg env p trace sz align w =
     (let (mine, w1) = (if USE_GWP_ASAN cfg then GuardedAlloc_pointerIsMine p w else (False, w))
      in if mine then
           (let (sz1, w2) = (if sz = 0 then GuardedAlloc_getSize p w1 else (sz, w1))
            in (case CurrentMemoryTracker_free env sz1 w2 of
                  (Inl e, w3) \<Rightarrow> (Inl terminate, w3)
                | (Inr t, w3) \<Rightarrow> (Inr (sz1, t), w3)))
         else
           (let actual_size =
                  (if USE_JEMALLOC cfg then
                     (if p \<noteq> nullptr then
                        (case align of
                           Some a \<Rightarrow> je_sallocx env w1 p (MALLOCX_ALIGN env (alignToSizeT a))
                         | None \<Rightarrow> je_sallocx env w1 p 0)
                      else 0)
                   else if sz \<noteq> 0 then sz
                   else if GNU_SOURCE cfg then malloc_usable_size env w1 p
                   else 0)
            in (case CurrentMemoryTracker_free env actual_size w1 of
                  (Inl e, w2) \<Rightarrow> (Inr (actual_size, trace), w2)
                | (Inr t, w2) \<Rightarrow> (Inr (actual_size, t), w2))))"

subsection \<open>Observations\<close>

text \<open>The calls made between two states.\<close>

definition new_calls :: "world \<Rightarrow> world \<Rightarrow> call list" where
  "new_calls w w' = drop (length (calls w)) (calls w')"

text \<open>The flags argument the jemalloc build passes for an optional alignment.\<close>

definition mallocx_flags :: "'t env \<Rightarrow> nat option \<Rightarrow> nat" where
  "mallocx_flags env align =
     (case align of Some a \<Rightarrow> MALLOCX_ALIGN env (alignToSizeT a) | None \<Rightarrow> 0)"

text \<open>The backend allocation call of a build for a request, and what the backend answers to
  it in a given state.\<close>

definition backend_request :: "config \<Rightarrow> nat \<Rightarrow> nat option \<Rightarrow> call" where
  "backend_request cfg sz align =
     (if USE_JEMALLOC cfg
      then (case align of Some a \<Rightarrow> JeAlignedAlloc a sz | None \<Rightarrow> JeMalloc sz)
      else (case align of Some a \<Rightarrow> AlignedAlloc a sz | None \<Rightarrow> Malloc sz))"

definition backend_answer :: "config \<Rightarrow> 't env \<Rightarrow> world \<Rightarrow> nat \<Rightarrow> nat option \<Rightarrow> ptr" where
  "backend_answer cfg env w sz align =
     (if USE_JEMALLOC cfg
      then (case align of
              Some a \<Rightarrow> je_aligned_alloc_result env w a sz
            | None \<Rightarrow> je_malloc_result env w sz)
      else (case align of
              Some a \<Rightarrow> aligned_alloc_result env w a sz
            | None \<Rightarrow> malloc_result env w sz))"

text \<open>The backend release call of the sized deallocation entry.\<close>

definition backend_sized_free :: "config \<Rightarrow> 't env \<Rightarrow> ptr \<Rightarrow> nat \<Rightarrow> nat option \<Rightarrow> call" where
  "backend_sized_free cfg env p sz align =
     (if USE_JEMALLOC cfg then JeSdallocx p sz (mallocx_flags env align) else Free p)"

text \<open>
  A call that gives memory back to an allocator. The C library and jemalloc define the release
  of a null pointer through \<^verbatim>\<open>free\<close> as no operation, so \<^verbatim>\<open>free(nullptr)\<close> and
  \<^verbatim>\<open>je_free(nullptr)\<close> release nothing.
\<close>

fun releases :: "call \<Rightarrow> bool" where
  "releases (GuardedDeallocate p) = True"
| "releases (JeSdallocx p sz flags) = True"
| "releases (JeFree p) = (p \<noteq> nullptr)"
| "releases (Free p) = (p \<noteq> nullptr)"
| "releases c = False"

fun is_attempt :: "call \<Rightarrow> bool" where
  "is_attempt (GuardedAllocate sz align) = True"
| "is_attempt c = False"

fun is_guard_free :: "call \<Rightarrow> bool" where
  "is_guard_free (GuardedDeallocate p) = True"
| "is_guard_free c = False"

text \<open>The number of sampled allocation attempts and of guard-allocator frees so far.\<close>

definition attempts :: "world \<Rightarrow> nat" where
  "attempts w = length (filter is_attempt (calls w))"

definition guard_frees :: "world \<Rightarrow> nat" where
  "guard_frees w = length (filter is_guard_free (calls w))"

definition counters_total :: "world \<Rightarrow> nat" where
  "counters_total w =
     profile w GWPAsanAllocateSuccess + profile w GWPAsanAllocateFailed + profile w GWPAsanFree"

subsection \<open>Execution traces\<close>

text \<open>
  A trace is a sequence of calls of the allocation and deallocation entries, with any
  arguments, run from the state at process start. An exception of \<^verbatim>\<open>newImpl\<close> goes to its
  caller and the process goes on.
\<close>

datatype request =
    NewImpl nat "nat option"
  | NewNoExcept nat "nat option"
  | DeleteImpl ptr
  | DeleteSized ptr nat "nat option"

definition process_start :: world where
  "process_start = \<lparr>guarded = [], profile = (\<lambda>e. 0), tracked = 0, calls = []\<rparr>"

fun step :: "config \<Rightarrow> 't env \<Rightarrow> request \<Rightarrow> world \<Rightarrow> world" where
  "step cfg env (NewImpl sz align) w = snd (newImpl cfg env sz align w)"
| "step cfg env (NewNoExcept sz align) w = snd (newNoExcept cfg env sz align w)"
| "step cfg env (DeleteImpl p) w = deleteImpl cfg p w"
| "step cfg env (DeleteSized p sz align) w = deleteSized cfg env p sz align w"

fun run :: "config \<Rightarrow> 't env \<Rightarrow> request list \<Rightarrow> world \<Rightarrow> world" where
  "run cfg env [] w = w"
| "run cfg env (r # rs) w = run cfg env rs (step cfg env r w)"

subsection \<open>Concrete builds and environments\<close>

definition jemalloc_gwp_build :: config where
  "jemalloc_gwp_build = \<lparr>USE_JEMALLOC = True, USE_GWP_ASAN = True, GNU_SOURCE = True\<rparr>"

definition jemalloc_build :: config where
  "jemalloc_build = \<lparr>USE_JEMALLOC = True, USE_GWP_ASAN = False, GNU_SOURCE = True\<rparr>"

definition default_gwp_build :: config where
  "default_gwp_build = \<lparr>USE_JEMALLOC = False, USE_GWP_ASAN = True, GNU_SOURCE = True\<rparr>"

definition default_build :: config where
  "default_build = \<lparr>USE_JEMALLOC = False, USE_GWP_ASAN = False, GNU_SOURCE = True\<rparr>"

text \<open>The size classes of a small-object allocator: 8 bytes, then multiples of 16.\<close>

definition size_class :: "nat \<Rightarrow> nat" where
  "size_class sz = (if sz \<le> 8 then 8 else 16 * ((sz + 15) div 16))"

text \<open>
  An environment with fixed answers: the sampling decision, the guard allocator's placement,
  the backend's placement, the committed size the backend reports for a pointer, and whether
  the tracker's release raises.
\<close>

definition fixed_env :: "bool \<Rightarrow> ptr \<Rightarrow> ptr \<Rightarrow> nat \<Rightarrow> bool \<Rightarrow> unit env" where
  "fixed_env sample g b committed raises =
     \<lparr>sample_decision = (\<lambda>w. sample),
      guard_placement = (\<lambda>w sz align. g),
      je_malloc_result = (\<lambda>w sz. b),
      je_aligned_alloc_result = (\<lambda>w a sz. b),
      malloc_result = (\<lambda>w sz. b),
      aligned_alloc_result = (\<lambda>w a sz. b),
      je_nallocx = (\<lambda>sz flags. size_class sz),
      je_sallocx = (\<lambda>w p flags. committed),
      malloc_usable_size = (\<lambda>w p. committed),
      MALLOCX_ALIGN = (\<lambda>a. a),
      tracker_free_raises = (\<lambda>w sz. raises),
      alloc_trace = (\<lambda>w sz. ()),
      free_trace = (\<lambda>w sz. ())\<rparr>"

text \<open>
  An environment whose size computation answers 0 for a request above its largest size class,
  as jemalloc documents for \<^verbatim>\<open>nallocx\<close>; below that it rounds up to the size class.
\<close>

definition largest_size_class :: nat where
  "largest_size_class = 7 * 2 ^ 60"

definition bounded_env :: "unit env" where
  "bounded_env =
     (fixed_env False 0 0 8 False)
       \<lparr>je_nallocx := (\<lambda>sz flags. if sz \<le> largest_size_class then size_class sz else 0)\<rparr>"

text \<open>A state in which the guard allocator holds one allocation of 8 bytes at address 4096.\<close>

definition one_guarded :: world where
  "one_guarded =
     \<lparr>guarded = [(4096, 8)],
      profile = (\<lambda>e. if e = GWPAsanAllocateSuccess then 1 else 0),
      tracked = 8,
      calls = [ShouldSample, GuardedAllocate 8 None]\<rparr>"

subsection \<open>Statement helpers\<close>

text \<open>The state in which \<^verbatim>\<open>untrackMemory\<close> puts its size query: the one after the ownership
  question, which is asked only when sampling is compiled in.\<close>

definition after_ownership_query :: "config \<Rightarrow> ptr \<Rightarrow> world \<Rightarrow> world" where
  "after_ownership_query cfg p w =
     (if USE_GWP_ASAN cfg then record_call (PointerIsMine p) w else w)"

text \<open>
  The counters agree with the log and with the guard allocator's table: successes and failures
  add up to the attempts, the freed counter is the number of guard-allocator frees, and every
  success is either still live in the table or freed.
\<close>

definition counters_consistent :: "world \<Rightarrow> bool" where
  "counters_consistent w =
     (profile w GWPAsanAllocateSuccess + profile w GWPAsanAllocateFailed = attempts w
      \<and> profile w GWPAsanFree = guard_frees w
      \<and> profile w GWPAsanFree + length (guarded w) = profile w GWPAsanAllocateSuccess)"

section \<open>Properties\<close>

subsection \<open>Effects of the collaborators on the fields of the state\<close>

lemma calls_record_call [simp]: "calls (record_call c w) = calls w @ [c]"
  and profile_record_call [simp]: "profile (record_call c w) = profile w"
  and guarded_record_call [simp]: "guarded (record_call c w) = guarded w"
  and tracked_record_call [simp]: "tracked (record_call c w) = tracked w"
  by (simp_all add: record_call_def)

lemma calls_increment [simp]: "calls (increment e w) = calls w"
  and guarded_increment [simp]: "guarded (increment e w) = guarded w"
  and tracked_increment [simp]: "tracked (increment e w) = tracked w"
  and profile_increment [simp]: "profile (increment e w) = (profile w)(e := Suc (profile w e))"
  by (simp_all add: increment_def)

lemma owns_record_call [simp]: "owns (record_call c w) p = owns w p"
  and owns_increment [simp]: "owns (increment e w) p = owns w p"
  by (simp_all add: owns_def)

lemma new_calls_append [simp]: "calls w' = calls w @ cs \<Longrightarrow> new_calls w w' = cs"
  by (simp add: new_calls_def)

lemmas backend_defs = je_malloc_def je_aligned_alloc_def malloc_def aligned_alloc_def
  je_free_def je_sdallocx_def free_def

lemmas guard_defs = GWPAsan_shouldSample_def GuardedAlloc_allocate_def
  GuardedAlloc_deallocate_def GuardedAlloc_pointerIsMine_def GuardedAlloc_getSize_def

lemmas tracker_defs = CurrentMemoryTracker_allocNoThrow_def CurrentMemoryTracker_free_def

subsection \<open>Allocation entries\<close>



text \<open>
  C4. For every request, zero size and a backend that answers null included, and in every
  build, the non-throwing entry \<^verbatim>\<open>newNoExcept\<close> returns normally, and what it returns is the
  pointer the guard allocator placed and now owns, when the request was sampled and that
  pointer is not null, and otherwise exactly the backend's answer to the allocation call, null
  included.
\<close>

theorem newNoExcept_never_raises:
  "(if USE_JEMALLOC cfg then
      fst (newNoExcept cfg env sz align w) = Inr (backend_answer cfg env w sz align)
    else if \<not> USE_GWP_ASAN cfg then
      fst (newNoExcept cfg env sz align w) = Inr (backend_answer cfg env w sz align)
    else if \<not> sample_decision env w then
      fst (newNoExcept cfg env sz align w)
        = Inr (backend_answer cfg env (record_call ShouldSample w) sz align)
    else if guard_placement env (record_call ShouldSample w) sz align \<noteq> nullptr then
      fst (newNoExcept cfg env sz align w)
        = Inr (guard_placement env (record_call ShouldSample w) sz align)
      \<and> owns (snd (newNoExcept cfg env sz align w))
           (guard_placement env (record_call ShouldSample w) sz align)
    else
      fst (newNoExcept cfg env sz align w)
        = Inr (backend_answer cfg env
                (increment GWPAsanAllocateFailed
                  (record_call (GuardedAllocate sz align) (record_call ShouldSample w)))
                sz align))
   \<and> (\<exists>p. fst (newNoExcept cfg env sz align w) = Inr p
        \<and> ((p \<noteq> nullptr \<and> owns (snd (newNoExcept cfg env sz align w)) p
             \<and> last (calls (snd (newNoExcept cfg env sz align w))) = GuardedAllocate sz align)
           \<or> last (calls (snd (newNoExcept cfg env sz align w)))
               = backend_request cfg sz align))"
  by (cases align)
     (simp_all add: newNoExcept_def backend_defs guard_defs backend_request_def
      backend_answer_def owns_def alignToSizeT_def Let_def)

theorem newNoExcept_never_raises_witness:
  "fst (newNoExcept default_gwp_build (fixed_env True 0 0 8 False) 0 None process_start)
     = Inr nullptr
   \<and> fst (newNoExcept default_gwp_build (fixed_env True 0 8192 8 False) 0 None process_start)
     = Inr 8192
   \<and> fst (newNoExcept default_gwp_build (fixed_env True 4096 0 8 False) 0 None process_start)
     = Inr 4096
   \<and> fst (newNoExcept default_build (fixed_env False 0 8192 8 False) 40 (Some 16) process_start)
     = Inr 8192"
  using newNoExcept_never_raises [where cfg = default_gwp_build
      and env = "fixed_env True 0 0 8 False" and sz = 0 and align = None and w = process_start]
    newNoExcept_never_raises [where cfg = default_gwp_build
      and env = "fixed_env True 0 8192 8 False" and sz = 0 and align = None
      and w = process_start]
    newNoExcept_never_raises [where cfg = default_gwp_build
      and env = "fixed_env True 4096 0 8 False" and sz = 0 and align = None
      and w = process_start]
    newNoExcept_never_raises [where cfg = default_build
      and env = "fixed_env False 0 8192 8 False" and sz = 40 and align = "Some 16"
      and w = process_start]
  by (simp add: backend_answer_def default_gwp_build_def default_build_def fixed_env_def
      process_start_def)

text \<open>
  C5, as amended. With sampling compiled in, \<^verbatim>\<open>newNoExcept\<close> of the platform-default build
  first asks \<^verbatim>\<open>shouldSample\<close>; on a miss it calls the backend; on a hit it asks the guard
  allocator, returns its pointer and counts a success when that is not null, and otherwise
  counts a failure and calls the backend, returning what the backend answers. It never raises.
  In the jemalloc build \<^verbatim>\<open>newNoExcept\<close> makes the backend call alone and touches no counter.
\<close>

theorem newNoExcept_offers_to_guard_allocator:
  assumes "USE_GWP_ASAN cfg"
  shows "\<exists>p. newNoExcept cfg env sz align w = (Inr p, snd (newNoExcept cfg env sz align w))
     \<and> (if USE_JEMALLOC cfg then
           new_calls w (snd (newNoExcept cfg env sz align w)) = [backend_request cfg sz align]
           \<and> p = backend_answer cfg env w sz align
           \<and> profile (snd (newNoExcept cfg env sz align w)) = profile w
         else if \<not> sample_decision env w then
           new_calls w (snd (newNoExcept cfg env sz align w))
             = [ShouldSample, backend_request cfg sz align]
           \<and> p = backend_answer cfg env (record_call ShouldSample w) sz align
           \<and> profile (snd (newNoExcept cfg env sz align w)) = profile w
         else if guard_placement env (record_call ShouldSample w) sz align \<noteq> nullptr then
           new_calls w (snd (newNoExcept cfg env sz align w))
             = [ShouldSample, GuardedAllocate sz align]
           \<and> p = guard_placement env (record_call ShouldSample w) sz align
           \<and> profile (snd (newNoExcept cfg env sz align w))
             = (profile w)(GWPAsanAllocateSuccess := Suc (profile w GWPAsanAllocateSuccess))
         else
           new_calls w (snd (newNoExcept cfg env sz align w))
             = [ShouldSample, GuardedAllocate sz align, backend_request cfg sz align]
           \<and> p = backend_answer cfg env
                 (increment GWPAsanAllocateFailed
                   (record_call (GuardedAllocate sz align) (record_call ShouldSample w))) sz align
           \<and> profile (snd (newNoExcept cfg env sz align w))
             = (profile w)(GWPAsanAllocateFailed := Suc (profile w GWPAsanAllocateFailed)))"
  using assms
  by (cases align)
     (simp_all add: newNoExcept_def backend_defs guard_defs backend_request_def
      backend_answer_def alignToSizeT_def Let_def)

theorem newNoExcept_offers_to_guard_allocator_witness:
  "USE_GWP_ASAN default_gwp_build
   \<and> newNoExcept default_gwp_build (fixed_env True 0 8192 8 False) 8 None process_start
     = (Inr 8192,
        \<lparr>guarded = [], profile = (\<lambda>e. 0)(GWPAsanAllocateFailed := 1), tracked = 0,
         calls = [ShouldSample, GuardedAllocate 8 None, Malloc 8]\<rparr>)"
  using newNoExcept_offers_to_guard_allocator [where cfg = default_gwp_build
      and env = "fixed_env True 0 8192 8 False" and sz = 8 and align = None
      and w = process_start]
  by (simp add: newNoExcept_def backend_defs guard_defs alignToSizeT_def
      default_gwp_build_def fixed_env_def process_start_def Let_def record_call_def
      increment_def)

text \<open>
  The claim as written fails in the jemalloc build: sampling is compiled in and the
  environment would sample, yet the only call is \<^verbatim>\<open>je_malloc\<close>.
\<close>

theorem newNoExcept_jemalloc_skips_sampling:
  "USE_GWP_ASAN jemalloc_gwp_build
   \<and> sample_decision (fixed_env True 4096 8192 8 False) process_start
   \<and> new_calls process_start
        (snd (newNoExcept jemalloc_gwp_build (fixed_env True 4096 8192 8 False) 8 None
               process_start)) = [JeMalloc 8]"
  by (simp add: newNoExcept_def backend_defs jemalloc_gwp_build_def fixed_env_def
      process_start_def new_calls_def record_call_def)

subsection \<open>Deallocation entries\<close>

text \<open>
  C2, as amended. With sampling compiled in, both deallocation entries of the platform-default
  build, and the sized entry of the jemalloc build for a pointer that is not null, first ask the
  guard allocator whether it owns the pointer. If it does, the freed counter goes up by one, the
  guard allocator takes the pointer back and no backend function is called; otherwise the
  pointer goes to the backend: \<^verbatim>\<open>free\<close>, or \<^verbatim>\<open>je_sdallocx\<close> with the declared size and the
  alignment flags. The unsized entry of the jemalloc build asks nothing and passes every
  pointer to \<^verbatim>\<open>je_free\<close>; its sized entry returns at once for the null pointer.
\<close>

theorem deallocation_routing:
  assumes "USE_GWP_ASAN cfg"
  shows "new_calls w (deleteImpl cfg p w) =
           (if USE_JEMALLOC cfg then [JeFree p]
            else if owns w p then [PointerIsMine p, GuardedDeallocate p]
            else [PointerIsMine p, Free p])
       \<and> profile (deleteImpl cfg p w) =
           (if \<not> USE_JEMALLOC cfg \<and> owns w p
            then (profile w)(GWPAsanFree := Suc (profile w GWPAsanFree)) else profile w)
       \<and> guarded (deleteImpl cfg p w) =
           (if \<not> USE_JEMALLOC cfg \<and> owns w p then drop_entry p (guarded w) else guarded w)
       \<and> new_calls w (deleteSized cfg env p sz align w) =
           (if USE_JEMALLOC cfg \<and> p = nullptr then []
            else if owns w p then [PointerIsMine p, GuardedDeallocate p]
            else [PointerIsMine p, backend_sized_free cfg env p sz align])
       \<and> profile (deleteSized cfg env p sz align w) =
           (if owns w p \<and> \<not> (USE_JEMALLOC cfg \<and> p = nullptr)
            then (profile w)(GWPAsanFree := Suc (profile w GWPAsanFree)) else profile w)
       \<and> guarded (deleteSized cfg env p sz align w) =
           (if owns w p \<and> \<not> (USE_JEMALLOC cfg \<and> p = nullptr)
            then drop_entry p (guarded w) else guarded w)"
  using assms
  by (cases align)
     (simp_all add: deleteImpl_def deleteSized_def backend_defs guard_defs
      backend_sized_free_def mallocx_flags_def new_calls_def)

theorem deallocation_routing_witness:
  "USE_GWP_ASAN default_gwp_build
   \<and> deleteImpl default_gwp_build 4096 one_guarded =
       \<lparr>guarded = [],
        profile = (\<lambda>e. if e = GWPAsanAllocateSuccess then 1 else 0)(GWPAsanFree := 1),
        tracked = 8,
        calls = [ShouldSample, GuardedAllocate 8 None, PointerIsMine 4096,
                 GuardedDeallocate 4096]\<rparr>
   \<and> new_calls one_guarded
         (deleteSized default_gwp_build (fixed_env True 0 8192 8 False) 8192 8 None one_guarded)
       = [PointerIsMine 8192, Free 8192]"
  using deallocation_routing [where cfg = default_gwp_build and p = 4096 and w = one_guarded]
    deallocation_routing [where cfg = default_gwp_build and p = 8192 and w = one_guarded
      and env = "fixed_env True 0 8192 8 False" and sz = 8 and align = None]
  by (simp add: deleteImpl_def deleteSized_def backend_defs guard_defs owns_def
      default_gwp_build_def one_guarded_def record_call_def increment_def new_calls_def)

text \<open>
  The claim as written fails for \<^verbatim>\<open>deleteImpl\<close> of the jemalloc build with sampling compiled
  in: no ownership question is asked, and a pointer the guard allocator owns goes to
  \<^verbatim>\<open>je_free\<close> with the freed counter unchanged.
\<close>

theorem deleteImpl_jemalloc_never_asks:
  "USE_GWP_ASAN jemalloc_gwp_build
   \<and> new_calls process_start (deleteImpl jemalloc_gwp_build 8192 process_start) = [JeFree 8192]
   \<and> owns one_guarded 4096
   \<and> new_calls one_guarded (deleteImpl jemalloc_gwp_build 4096 one_guarded) = [JeFree 4096]
   \<and> profile (deleteImpl jemalloc_gwp_build 4096 one_guarded) GWPAsanFree
       = profile one_guarded GWPAsanFree"
  by (simp add: deleteImpl_def backend_defs owns_def jemalloc_gwp_build_def one_guarded_def
      process_start_def new_calls_def)

text \<open>
  C10. In every build, for every declared size and alignment, \<^verbatim>\<open>deleteSized\<close> of the null
  pointer changes no profile counter, leaves the guard allocator's table and the tracker as
  they were and makes no call that releases memory, provided the guard allocator does not claim
  the null pointer. The jemalloc build returns at once; the platform-default build asks the
  guard allocator (when compiled in) and calls \<^verbatim>\<open>free(nullptr)\<close>.
\<close>

theorem deleteSized_null_is_noop:
  assumes "\<not> owns w nullptr"
  shows "profile (deleteSized cfg env nullptr sz align w) = profile w
       \<and> guarded (deleteSized cfg env nullptr sz align w) = guarded w
       \<and> tracked (deleteSized cfg env nullptr sz align w) = tracked w
       \<and> filter releases (new_calls w (deleteSized cfg env nullptr sz align w)) = []"
  using assms
  by (simp add: deleteSized_def backend_defs guard_defs new_calls_def)

theorem deleteSized_null_is_noop_witness:
  "\<not> owns one_guarded nullptr
   \<and> deleteSized default_gwp_build (fixed_env True 0 8192 8 False) nullptr 8 (Some 16) one_guarded
       = one_guarded\<lparr>calls := calls one_guarded @ [PointerIsMine nullptr, Free nullptr]\<rparr>
   \<and> deleteSized jemalloc_gwp_build (fixed_env True 0 8192 8 False) nullptr 8 (Some 16) one_guarded
       = one_guarded"
  using deleteSized_null_is_noop [where w = one_guarded and cfg = default_gwp_build
      and env = "fixed_env True 0 8192 8 False" and sz = 8 and align = "Some 16"]
  by (simp add: deleteSized_def backend_defs guard_defs owns_def default_gwp_build_def
      jemalloc_gwp_build_def one_guarded_def record_call_def)

text \<open>The guard allocator never comes to own the null pointer: \<^verbatim>\<open>allocate\<close> enters only
  pointers that are not null.\<close>

lemma set_drop_entry: "set (drop_entry p es) \<subseteq> set es"
  by (induction es) (auto split: if_splits)

lemma keys_drop_entry: "q \<in> set (map fst (drop_entry p es)) \<Longrightarrow> q \<in> set (map fst es)"
  using set_drop_entry [of p es] by auto

lemma step_never_owns_null: "\<not> owns w nullptr \<Longrightarrow> \<not> owns (step cfg env r w) nullptr"
proof (cases r)
  case (NewImpl sz align)
  then show "\<not> owns w nullptr \<Longrightarrow> ?thesis"
    by (cases align)
       (simp_all add: newImpl_def newImpl_backend_def backend_defs guard_defs owns_def
        Let_def)
next
  case (NewNoExcept sz align)
  then show "\<not> owns w nullptr \<Longrightarrow> ?thesis"
    by (cases align)
       (simp_all add: newNoExcept_def backend_defs guard_defs owns_def Let_def)
next
  case (DeleteImpl p)
  then show "\<not> owns w nullptr \<Longrightarrow> ?thesis"
    using keys_drop_entry [of nullptr p "guarded w"]
    by (auto simp: deleteImpl_def backend_defs guard_defs owns_def Let_def)
next
  case (DeleteSized p sz align)
  then show "\<not> owns w nullptr \<Longrightarrow> ?thesis"
    using keys_drop_entry [of nullptr p "guarded w"]
    by (cases align)
       (auto simp: deleteSized_def backend_defs guard_defs owns_def Let_def)
qed

lemma run_never_owns_null: "\<not> owns w nullptr \<Longrightarrow> \<not> owns (run cfg env rs w) nullptr"
  by (induction rs arbitrary: w) (simp_all add: step_never_owns_null)

lemma trace_never_owns_null: "\<not> owns (run cfg env rs process_start) nullptr"
  by (rule run_never_owns_null) (simp add: owns_def process_start_def)

subsection \<open>Accounting\<close>

lemma untrackMemory_not_mine:
  assumes "\<not> (USE_GWP_ASAN cfg \<and> owns w p)"
  shows "untrackMemory cfg env p trace sz align w =
    (let w1 = after_ownership_query cfg p w;
         r = (if USE_JEMALLOC cfg then
                (if p \<noteq> nullptr then je_sallocx env w1 p (mallocx_flags env align) else 0)
              else if sz \<noteq> 0 then sz
              else if GNU_SOURCE cfg then malloc_usable_size env w1 p
              else 0)
     in if tracker_free_raises env w1 r then (Inr (r, trace), w1)
        else (Inr (r, free_trace env w1 r), w1\<lparr>tracked := tracked w1 - int r\<rparr>))"
  using assms
  by (cases align)
     (simp_all add: untrackMemory_def guard_defs tracker_defs after_ownership_query_def
      mallocx_flags_def Let_def)

lemma trackMemory_charges:
  "trackMemory cfg env sz align w =
     (getActualAllocationSize cfg env sz align,
      alloc_trace env w (getActualAllocationSize cfg env sz align),
      w\<lparr>tracked := tracked w + int (getActualAllocationSize cfg env sz align)\<rparr>)"
  by (simp add: trackMemory_def tracker_defs Let_def)

lemma getActualAllocationSize_flags:
  "getActualAllocationSize cfg env sz align =
     (if USE_JEMALLOC cfg \<and> sz \<noteq> 0 then je_nallocx env sz (mallocx_flags env align) else sz)"
  by (cases align) (simp_all add: getActualAllocationSize_def mallocx_flags_def)

lemma tracked_after_ownership_query [simp]:
  "tracked (after_ownership_query cfg p w) = tracked w"
  by (simp add: after_ownership_query_def)

text \<open>
  C9, as amended. \<^verbatim>\<open>getActualAllocationSize\<close> returns \<^verbatim>\<open>je_nallocx(size, flags)\<close> in the jemalloc
  build when the size is not zero, and the nominal size otherwise: in the platform-default
  build, and in the jemalloc build for size zero, where the backend is not asked. The result is
  at least the requested size exactly when it is the nominal size or the backend's answer is
  at least the request; the header does not compare the answer with the request.
  \<^verbatim>\<open>trackMemory\<close> returns this value and charges exactly it to the tracker.
\<close>

theorem getActualAllocationSize_resolves:
  "getActualAllocationSize cfg env sz align
     = (if USE_JEMALLOC cfg \<and> sz \<noteq> 0 then je_nallocx env sz (mallocx_flags env align) else sz)
   \<and> (sz \<le> getActualAllocationSize cfg env sz align)
     = (if USE_JEMALLOC cfg \<and> sz \<noteq> 0
        then sz \<le> je_nallocx env sz (mallocx_flags env align) else True)
   \<and> fst (trackMemory cfg env sz align w) = getActualAllocationSize cfg env sz align
   \<and> tracked (snd (snd (trackMemory cfg env sz align w)))
       = tracked w + int (getActualAllocationSize cfg env sz align)"
  by (simp add: trackMemory_charges getActualAllocationSize_flags)

theorem getActualAllocationSize_resolves_witness:
  "getActualAllocationSize jemalloc_build (fixed_env False 0 8192 48 False) 40 None = 48
   \<and> (40::nat) \<le> getActualAllocationSize jemalloc_build (fixed_env False 0 8192 48 False) 40 None
   \<and> getActualAllocationSize default_build (fixed_env False 0 8192 48 False) 40 None = 40
   \<and> trackMemory jemalloc_build (fixed_env False 0 8192 48 False) 40 None process_start
       = (48, (), process_start\<lparr>tracked := 48\<rparr>)"
  using getActualAllocationSize_resolves [where cfg = jemalloc_build
      and env = "fixed_env False 0 8192 48 False" and sz = 40 and align = None
      and w = process_start]
  by (simp add: trackMemory_def getActualAllocationSize_def tracker_defs mallocx_flags_def
      jemalloc_build_def default_build_def fixed_env_def process_start_def size_class_def
      Let_def)

text \<open>
  The claim as written fails twice in the jemalloc build. For a request of size zero the result
  is 0, not the 8 bytes the backend computes for the request and reports for the pointer. For a
  request of \<open>2 ^ 63\<close> bytes, above the backend's largest size class, the backend answers 0 and
  the result is 0, below the requested size, and 0 is what \<^verbatim>\<open>trackMemory\<close> charges.
\<close>

theorem getActualAllocationSize_zero_and_oversize:
  "USE_JEMALLOC jemalloc_build
   \<and> getActualAllocationSize jemalloc_build (fixed_env False 0 8192 8 False) 0 None = 0
   \<and> je_nallocx (fixed_env False 0 8192 8 False) 0
        (mallocx_flags (fixed_env False 0 8192 8 False) None) = 8
   \<and> je_sallocx (fixed_env False 0 8192 8 False) process_start 8192 0 = 8
   \<and> getActualAllocationSize jemalloc_build bounded_env (2 ^ 63) None = 0
   \<and> \<not> (2 ^ 63 \<le> getActualAllocationSize jemalloc_build bounded_env (2 ^ 63) None)
   \<and> fst (trackMemory jemalloc_build bounded_env (2 ^ 63) None process_start) = 0"
  by (simp add: trackMemory_def getActualAllocationSize_def tracker_defs mallocx_flags_def
      jemalloc_build_def fixed_env_def bounded_env_def largest_size_class_def size_class_def
      Let_def)

text \<open>
  C6, as amended. For a pointer the guard allocator does not own, \<^verbatim>\<open>untrackMemory\<close> releases: in
  the jemalloc build, whatever size the caller declares, the backend's \<^verbatim>\<open>je_sallocx\<close> answer for
  a pointer that is not null and 0 for the null pointer; in the platform-default build the
  declared size when it is not zero, otherwise \<^verbatim>\<open>malloc_usable_size\<close> when built with
  \<^verbatim>\<open>_GNU_SOURCE\<close>, and otherwise 0. It returns that size, lowers the tracker by exactly that
  size unless the tracker's release raises (then the tracker and the trace stay as they were),
  and makes no call on an allocator beyond the ownership question.
\<close>

theorem untrackMemory_released_size:
  assumes "\<not> (USE_GWP_ASAN cfg \<and> owns w p)"
  shows "(let w1 = after_ownership_query cfg p w;
              r = (if USE_JEMALLOC cfg then
                     (if p \<noteq> nullptr then je_sallocx env w1 p (mallocx_flags env align) else 0)
                   else if sz \<noteq> 0 then sz
                   else if GNU_SOURCE cfg then malloc_usable_size env w1 p
                   else 0)
          in fst (untrackMemory cfg env p trace sz align w)
               = Inr (r, if tracker_free_raises env w1 r then trace else free_trace env w1 r)
           \<and> tracked (snd (untrackMemory cfg env p trace sz align w))
               = (if tracker_free_raises env w1 r then tracked w else tracked w - int r)
           \<and> new_calls w (snd (untrackMemory cfg env p trace sz align w))
               = (if USE_GWP_ASAN cfg then [PointerIsMine p] else []))"
  by (simp add: untrackMemory_not_mine [OF assms] Let_def after_ownership_query_def
      new_calls_def)

theorem untrackMemory_released_size_witness:
  "\<not> (USE_GWP_ASAN default_build \<and> owns process_start 8192)
   \<and> untrackMemory default_build (fixed_env False 0 8192 56 False) 8192 () 40 None
        process_start = (Inr (40, ()), process_start\<lparr>tracked := - 40\<rparr>)
   \<and> untrackMemory default_build (fixed_env False 0 8192 56 False) 8192 () 0 None
        process_start = (Inr (56, ()), process_start\<lparr>tracked := - 56\<rparr>)"
  using untrackMemory_released_size [where cfg = default_build and w = process_start
      and p = 8192 and env = "fixed_env False 0 8192 56 False" and trace = "()" and sz = 40
      and align = None]
  by (simp add: untrackMemory_def guard_defs tracker_defs default_build_def fixed_env_def
      process_start_def Let_def)

text \<open>
  The claim as written fails in the jemalloc build: with a declared size of 40 and a committed
  size of 48, the size released is 48.
\<close>

theorem untrackMemory_jemalloc_ignores_declared_size:
  "\<not> owns process_start 8192
   \<and> untrackMemory jemalloc_build (fixed_env False 0 8192 48 False) 8192 () 40 None
        process_start
       = (Inr (48, ()), process_start\<lparr>tracked := - 48\<rparr>)"
  by (simp add: untrackMemory_def guard_defs tracker_defs jemalloc_build_def fixed_env_def
      process_start_def owns_def Let_def)

text \<open>
  C1, as amended. In the jemalloc build, for a request of a size that is not zero and a pointer
  that is not null and not owned by the guard allocator, if the backend's size query for the
  pointer agrees with its size computation for the request, then \<^verbatim>\<open>trackMemory\<close> charges and
  \<^verbatim>\<open>untrackMemory\<close> releases the same size, whatever size the deallocation declares; the
  tracker goes up and down by that size unless its release raises.
\<close>

theorem track_untrack_size_symmetry:
  assumes "USE_JEMALLOC cfg" and "sz \<noteq> 0" and "p \<noteq> nullptr"
    and "\<not> (USE_GWP_ASAN cfg \<and> owns w' p)"
    and "je_sallocx env (after_ownership_query cfg p w') p (mallocx_flags env align)
           = je_nallocx env sz (mallocx_flags env align)"
  shows "tracked (snd (snd (trackMemory cfg env sz align w)))
           = tracked w + int (fst (trackMemory cfg env sz align w))
       \<and> (\<exists>t. fst (untrackMemory cfg env p trace declared align w')
                = Inr (fst (trackMemory cfg env sz align w), t))
       \<and> tracked (snd (untrackMemory cfg env p trace declared align w'))
           = (if tracker_free_raises env (after_ownership_query cfg p w')
                   (fst (trackMemory cfg env sz align w))
              then tracked w' else tracked w' - int (fst (trackMemory cfg env sz align w)))"
proof -
  have charged: "fst (trackMemory cfg env sz align w) = je_nallocx env sz (mallocx_flags env align)"
    using assms(1,2) by (simp add: trackMemory_charges getActualAllocationSize_flags)
  show ?thesis
    unfolding charged
    using assms(1,2,3,5)
    by (simp add: untrackMemory_not_mine [OF assms(4)] trackMemory_charges
        getActualAllocationSize_flags Let_def)
qed

theorem track_untrack_size_symmetry_witness:
  "USE_JEMALLOC jemalloc_build \<and> (40::nat) \<noteq> 0 \<and> (8192::nat) \<noteq> nullptr
   \<and> \<not> (USE_GWP_ASAN jemalloc_build \<and> owns process_start 8192)
   \<and> je_sallocx (fixed_env False 0 8192 48 False)
        (after_ownership_query jemalloc_build 8192 process_start) 8192 0
       = je_nallocx (fixed_env False 0 8192 48 False) 40 0
   \<and> fst (trackMemory jemalloc_build (fixed_env False 0 8192 48 False) 40 None process_start)
       = 48
   \<and> fst (untrackMemory jemalloc_build (fixed_env False 0 8192 48 False) 8192 () 0 None
            (snd (snd (trackMemory jemalloc_build (fixed_env False 0 8192 48 False) 40 None
                         process_start))))
       = Inr (48, ())
   \<and> tracked (snd (untrackMemory jemalloc_build (fixed_env False 0 8192 48 False) 8192 () 0 None
            (snd (snd (trackMemory jemalloc_build (fixed_env False 0 8192 48 False) 40 None
                         process_start)))))
       = 0"
  using track_untrack_size_symmetry [where cfg = jemalloc_build and sz = 40 and p = 8192
      and w' = "snd (snd (trackMemory jemalloc_build (fixed_env False 0 8192 48 False) 40 None
                         process_start))"
      and env = "fixed_env False 0 8192 48 False" and align = None and trace = "()"
      and declared = 0 and w = process_start]
  by (simp add: untrackMemory_def trackMemory_def getActualAllocationSize_def guard_defs
      tracker_defs after_ownership_query_def mallocx_flags_def jemalloc_build_def
      fixed_env_def process_start_def size_class_def owns_def Let_def)

text \<open>
  The claim as written fails for a request of size zero: \<^verbatim>\<open>trackMemory\<close> charges 0 without
  asking the backend, and \<^verbatim>\<open>untrackMemory\<close> releases the 8 bytes the backend reports for the
  pointer, so the tracker ends 8 below where it started.
\<close>

theorem track_untrack_zero_size_asymmetry:
  "USE_JEMALLOC jemalloc_build
   \<and> je_malloc_result (fixed_env False 0 8192 8 False) process_start 0 = 8192
   \<and> je_sallocx (fixed_env False 0 8192 8 False) process_start 8192 0
       = je_nallocx (fixed_env False 0 8192 8 False) 0 0
   \<and> trackMemory jemalloc_build (fixed_env False 0 8192 8 False) 0 None process_start
       = (0, (), process_start)
   \<and> untrackMemory jemalloc_build (fixed_env False 0 8192 8 False) 8192 () 0 None process_start
       = (Inr (8, ()), process_start\<lparr>tracked := - 8\<rparr>)"
  by (simp add: untrackMemory_def trackMemory_def getActualAllocationSize_def guard_defs
      tracker_defs jemalloc_build_def fixed_env_def process_start_def size_class_def Let_def)

text \<open>
  C7. The claim does not hold on the branch of \<^verbatim>\<open>untrackMemory\<close> for a pointer the guard
  allocator owns: the tracker's release is called before the \<^verbatim>\<open>try\<close> block, so when it raises,
  with or without a declared size, the exception leaves a \<^verbatim>\<open>noexcept\<close> function and the process
  terminates. On the other branch the same failure is swallowed and the size is returned.
\<close>

theorem untrackMemory_guarded_release_escapes:
  "owns one_guarded 4096
   \<and> fst (untrackMemory default_gwp_build (fixed_env True 0 8192 8 True) 4096 () 0 None
            one_guarded) = Inl terminate
   \<and> fst (untrackMemory default_gwp_build (fixed_env True 0 8192 8 True) 4096 () 8 None
            one_guarded) = Inl terminate
   \<and> fst (untrackMemory default_gwp_build (fixed_env True 0 8192 8 True) 8192 () 8 None
            one_guarded) = Inr (8, ())"
  by (simp add: untrackMemory_def guard_defs tracker_defs owns_def default_gwp_build_def
      fixed_env_def one_guarded_def Let_def)

subsection \<open>Counter conservation\<close>

lemma length_drop_entry:
  "p \<in> set (map fst es) \<Longrightarrow> Suc (length (drop_entry p es)) = length es"
proof (induction es)
  case Nil
  then show ?case by simp
next
  case (Cons e es)
  obtain q n where e: "e = (q, n)" by (cases e)
  show ?case
  proof (cases "p = q")
    case True
    then show ?thesis by (simp add: e)
  next
    case False
    with Cons.prems have "p \<in> set (map fst es)" by (simp add: e)
    with Cons.IH False show ?thesis by (simp add: e)
  qed
qed

lemma counters_consistent_start: "counters_consistent process_start"
  by (simp add: counters_consistent_def process_start_def attempts_def guard_frees_def)

text \<open>The four ways an entry changes the counted quantities.\<close>

lemma consistent_other_call:
  "counters_consistent w \<Longrightarrow> \<not> is_attempt c \<Longrightarrow> \<not> is_guard_free c
     \<Longrightarrow> counters_consistent (record_call c w)"
  by (simp add: counters_consistent_def attempts_def guard_frees_def)

lemma consistent_attempt_success:
  "counters_consistent w \<Longrightarrow> guard_placement env w sz align \<noteq> nullptr
     \<Longrightarrow> counters_consistent
           (increment GWPAsanAllocateSuccess (snd (GuardedAlloc_allocate env sz align w)))"
  by (simp add: counters_consistent_def attempts_def guard_frees_def
      GuardedAlloc_allocate_def Let_def)

lemma consistent_attempt_failed:
  "counters_consistent w \<Longrightarrow> guard_placement env w sz align = nullptr
     \<Longrightarrow> counters_consistent
           (increment GWPAsanAllocateFailed (snd (GuardedAlloc_allocate env sz align w)))"
  by (simp add: counters_consistent_def attempts_def guard_frees_def
      GuardedAlloc_allocate_def Let_def)

lemma consistent_guard_free:
  "counters_consistent w \<Longrightarrow> owns w p
     \<Longrightarrow> counters_consistent (GuardedAlloc_deallocate p (increment GWPAsanFree w))"
  using length_drop_entry [of p "guarded w"]
  by (simp add: counters_consistent_def attempts_def guard_frees_def
      GuardedAlloc_deallocate_def owns_def Let_def)

lemma fst_GuardedAlloc_allocate [simp]:
  "fst (GuardedAlloc_allocate env sz align w) = guard_placement env w sz align"
  by (simp add: GuardedAlloc_allocate_def Let_def)

lemmas consistent_steps = consistent_other_call consistent_attempt_success
  consistent_attempt_failed consistent_guard_free

lemmas entry_simps = backend_defs GWPAsan_shouldSample_def GuardedAlloc_pointerIsMine_def
  Let_def case_prod_beta

lemma newImpl_consistent:
  "counters_consistent w \<Longrightarrow> counters_consistent (snd (newImpl cfg env sz align w))"
  by (cases align)
     (simp_all add: newImpl_def newImpl_backend_def entry_simps consistent_steps)

lemma newNoExcept_consistent:
  "counters_consistent w \<Longrightarrow> counters_consistent (snd (newNoExcept cfg env sz align w))"
  by (cases align) (simp_all add: newNoExcept_def entry_simps consistent_steps)

lemma deleteImpl_consistent:
  "counters_consistent w \<Longrightarrow> counters_consistent (deleteImpl cfg p w)"
  by (simp add: deleteImpl_def entry_simps consistent_steps)

lemma deleteSized_consistent:
  "counters_consistent w \<Longrightarrow> counters_consistent (deleteSized cfg env p sz align w)"
  by (cases align) (simp_all add: deleteSized_def entry_simps consistent_steps)

lemma step_consistent:
  "counters_consistent w \<Longrightarrow> counters_consistent (step cfg env r w)"
  by (cases r)
     (simp_all add: newImpl_consistent newNoExcept_consistent deleteImpl_consistent
      deleteSized_consistent)

lemma run_consistent:
  "counters_consistent w \<Longrightarrow> counters_consistent (run cfg env rs w)"
  by (induction rs arbitrary: w) (simp_all add: step_consistent)

lemma profile_GuardedAlloc_allocate [simp]:
  "profile (snd (GuardedAlloc_allocate env sz align w)) = profile w"
  by (simp add: GuardedAlloc_allocate_def Let_def)

lemma profile_GuardedAlloc_deallocate [simp]:
  "profile (GuardedAlloc_deallocate p w) = profile w"
  by (simp add: GuardedAlloc_deallocate_def Let_def)

lemma counters_total_increment:
  "counters_total (increment e w) = Suc (counters_total w)"
  by (cases e) (simp_all add: counters_total_def)

lemma counters_total_profile:
  "profile w' = profile w \<Longrightarrow> counters_total w' = counters_total w"
  by (simp add: counters_total_def)

lemmas counters_total_simps = counters_total_increment
  counters_total_profile [OF profile_record_call]
  counters_total_profile [OF profile_GuardedAlloc_allocate]
  counters_total_profile [OF profile_GuardedAlloc_deallocate]

lemma step_counters_total: "counters_total (step cfg env r w) \<le> Suc (counters_total w)"
proof (cases r)
  case (NewImpl sz align)
  then show ?thesis
    by (cases align)
       (simp_all add: newImpl_def newImpl_backend_def entry_simps counters_total_simps)
next
  case (NewNoExcept sz align)
  then show ?thesis
    by (cases align) (simp_all add: newNoExcept_def entry_simps counters_total_simps)
next
  case (DeleteImpl p)
  then show ?thesis
    by (simp add: deleteImpl_def entry_simps counters_total_simps)
next
  case (DeleteSized p sz align)
  then show ?thesis
    by (cases align) (simp_all add: deleteSized_def entry_simps counters_total_simps)
qed

lemma step_profile_mono: "profile w e \<le> profile (step cfg env r w) e"
proof (cases r)
  case (NewImpl sz align)
  then show ?thesis
    by (cases align) (simp_all add: newImpl_def newImpl_backend_def entry_simps)
next
  case (NewNoExcept sz align)
  then show ?thesis
    by (cases align) (simp_all add: newNoExcept_def entry_simps)
next
  case (DeleteImpl p)
  then show ?thesis
    by (simp add: deleteImpl_def entry_simps)
next
  case (DeleteSized p sz align)
  then show ?thesis
    by (cases align) (simp_all add: deleteSized_def entry_simps)
qed

text \<open>
  C8. After any trace of allocation and deallocation entries from process start, in any build:
  the success and failed counters add up to the number of sampled allocation attempts, the
  freed counter is the number of guard-allocator frees, and the freed counter is at most the
  success counter. Any further entry call raises the sum of the three counters by at most one
  and lowers none of them, so no call increments more than one counter.
\<close>

theorem counter_conservation:
  "profile (run cfg env rs process_start) GWPAsanAllocateSuccess
     + profile (run cfg env rs process_start) GWPAsanAllocateFailed
     = attempts (run cfg env rs process_start)
   \<and> profile (run cfg env rs process_start) GWPAsanFree
     = guard_frees (run cfg env rs process_start)
   \<and> profile (run cfg env rs process_start) GWPAsanFree
     \<le> profile (run cfg env rs process_start) GWPAsanAllocateSuccess
   \<and> counters_total (step cfg env r (run cfg env rs process_start))
     \<le> Suc (counters_total (run cfg env rs process_start))
   \<and> profile (run cfg env rs process_start) e
     \<le> profile (step cfg env r (run cfg env rs process_start)) e"
proof -
  have "counters_consistent (run cfg env rs process_start)"
    by (rule run_consistent [OF counters_consistent_start])
  then show ?thesis
    using step_counters_total [of cfg env r "run cfg env rs process_start"]
      step_profile_mono [of "run cfg env rs process_start" e cfg env r]
    by (simp add: counters_consistent_def)
qed

theorem counter_conservation_witness:
  "calls (run default_gwp_build (fixed_env True 4096 8192 8 False)
            [NewNoExcept 8 None, DeleteImpl 4096, NewImpl 8 None] process_start)
     = [ShouldSample, GuardedAllocate 8 None, PointerIsMine 4096, GuardedDeallocate 4096,
        ShouldSample, GuardedAllocate 8 None]
   \<and> profile (run default_gwp_build (fixed_env True 4096 8192 8 False)
            [NewNoExcept 8 None, DeleteImpl 4096, NewImpl 8 None] process_start)
         GWPAsanAllocateSuccess = 2
   \<and> profile (run default_gwp_build (fixed_env True 4096 8192 8 False)
            [NewNoExcept 8 None, DeleteImpl 4096, NewImpl 8 None] process_start)
         GWPAsanAllocateFailed = 0
   \<and> profile (run default_gwp_build (fixed_env True 4096 8192 8 False)
            [NewNoExcept 8 None, DeleteImpl 4096, NewImpl 8 None] process_start)
         GWPAsanFree = 1"
  using counter_conservation [where cfg = default_gwp_build
      and env = "fixed_env True 4096 8192 8 False"
      and rs = "[NewNoExcept 8 None, DeleteImpl 4096, NewImpl 8 None]"
      and r = "DeleteImpl 4096" and e = GWPAsanFree]
  by (simp add: newImpl_def newNoExcept_def deleteImpl_def backend_defs guard_defs owns_def
      alignToSizeT_def default_gwp_build_def fixed_env_def process_start_def Let_def
      attempts_def guard_frees_def record_call_def increment_def)

end
